theory Spec2Isabelle
  imports Complex_Main "HOL-Library.Sublist"
begin

section \<open>The Python binding layer of connectorx\<close>

text \<open>
  The development embeds \<^verbatim>\<open>connectorx-python/connectorx/__init__.py\<close>.
  Python strings are modelled as \<^typ>\<open>string\<close>. Every string operation of the file
  (\<^verbatim>\<open>split(":", 1)\<close>, \<^verbatim>\<open>endswith(";")\<close>, \<^verbatim>\<open>"redshift" in backend\<close>,
  \<^verbatim>\<open>query[:-1]\<close> after a successful \<^verbatim>\<open>endswith(";")\<close>) looks at ASCII characters only, so
  reading a string as its UTF-8 bytes gives the same results as reading it as code points.
  Exceptions are values of \<open>py_error\<close>; a function that may raise returns
  \<open>py_error + 'a\<close> with \<open>Inl\<close> for the exception. \<^verbatim>\<open>assert\<close> statements are
  modelled as executed (the interpreter's default mode).
\<close>

subsection \<open>Values\<close>

datatype py_error =
    ValueError string
  | AssertionError string
  | IndexError string

text \<open>
  \<^verbatim>\<open>class Connection\<close>: an object whose only state is the field \<^verbatim>\<open>connection\<close>,
  returned by \<^verbatim>\<open>__str__\<close>.
\<close>

record Connection =
  connection :: string

text \<open>A \<^verbatim>\<open>conn\<close> argument of type \<^verbatim>\<open>str | Connection\<close>, and \<^verbatim>\<open>str(conn)\<close>.\<close>

datatype conn_value = ConnStr string | ConnObj Connection

fun str_conn :: "conn_value \<Rightarrow> string" where
  "str_conn (ConnStr s) = s"
| "str_conn (ConnObj c) = connection c"

text \<open>
  The \<^verbatim>\<open>conn\<close> argument of \<^verbatim>\<open>read_sql\<close>: one connection, or a \<^verbatim>\<open>dict\<close> of named
  connections (kept as an association list in insertion order).
\<close>

datatype conn_arg = Single conn_value | Federated "(string \<times> conn_value) list"

text \<open>
  The \<^verbatim>\<open>query\<close> argument of \<^verbatim>\<open>read_sql\<close>: a \<^verbatim>\<open>str\<close>, a \<^verbatim>\<open>list\<close> of \<^verbatim>\<open>str\<close>, or a
  value of any other type (the source has a branch for it).
\<close>

datatype query_arg = QStr string | QList "string list" | QOther

text \<open>The \<^verbatim>\<open>partition_query\<close> dictionary built by \<^verbatim>\<open>partition_sql\<close> and \<^verbatim>\<open>read_sql\<close>.\<close>

record partition_query =
  pq_query :: string
  pq_column :: string
  pq_min :: "int option"
  pq_max :: "int option"
  pq_num :: "int option"

text \<open>
  The calls into the extraction engine (the compiled module \<^verbatim>\<open>.connectorx\<close>), with
  their arguments in the order of the Python call:
  \<^verbatim>\<open>_read_sql(conn, return_type, queries=, protocol=, partition_query=)\<close>,
  \<^verbatim>\<open>_read_sql2(query, conn)\<close> and \<^verbatim>\<open>_get_meta(conn, protocol, query)\<close>.
\<close>

datatype engine_call =
    Engine_read_sql string string "string list option" string "partition_query option"
  | Engine_read_sql2 string "(string \<times> string) list"
  | Engine_get_meta string string string

subsection \<open>String helpers\<close>

text \<open>
  \<^verbatim>\<open>s.split(sep, 1)\<close> for a one-character separator: two parts around the first
  occurrence of the separator, or the whole string alone when it does not occur.
\<close>

definition split_once :: "char \<Rightarrow> string \<Rightarrow> string list" where
  "split_once sep s =
     (if sep \<in> set s
      then [takeWhile (\<lambda>c. c \<noteq> sep) s, tl (dropWhile (\<lambda>c. c \<noteq> sep) s)]
      else [s])"

text \<open>\<^verbatim>\<open>s.split(sep)\<close> for a one-character separator: all the parts, at least one.\<close>

fun split_all :: "char \<Rightarrow> string \<Rightarrow> string list" where
  "split_all sep [] = [[]]"
| "split_all sep (c # cs) =
     (if c = sep then [] # split_all sep cs
      else (case split_all sep cs of
              [] \<Rightarrow> [[c]]
            | p # ps \<Rightarrow> (c # p) # ps))"

text \<open>Truth value of a \<^verbatim>\<open>str | None\<close>: \<^verbatim>\<open>None\<close> and the empty string are falsy.\<close>

definition truthy :: "string option \<Rightarrow> bool" where
  "truthy p = (case p of None \<Rightarrow> False | Some s \<Rightarrow> s \<noteq> [])"

subsection \<open>\<^verbatim>\<open>remove_ending_semicolon\<close>\<close>

definition remove_ending_semicolon :: "string \<Rightarrow> string" where
  "remove_ending_semicolon query =
     (if suffix '';'' query then butlast query else query)"

subsection \<open>\<^verbatim>\<open>rewrite_conn\<close>\<close>

text \<open>
  The tuple assignment \<^verbatim>\<open>backend, connection_details = ...\<close> raises \<^verbatim>\<open>ValueError\<close> when
  the right-hand side does not have exactly two elements, which is what \<^verbatim>\<open>split\<close> returns
  for a non-empty string without a colon.
\<close>

definition rewrite_conn :: "conn_value \<Rightarrow> string option \<Rightarrow> py_error + (string \<times> string)" where
  "rewrite_conn conn0 protocol =
     (let conn = str_conn conn0 in
      if \<not> truthy protocol then
        (case (if conn \<noteq> [] then split_once CHR '':'' conn else [[], []]) of
           [backend, connection_details] \<Rightarrow>
             if sublist ''redshift'' backend
             then Inr (''postgresql:'' @ connection_details, ''cursor'')
             else if sublist ''clickhouse'' backend
             then Inr (''mysql:'' @ connection_details, ''text'')
             else Inr (conn, ''binary'')
         | _ \<Rightarrow> Inl (ValueError ''not enough values to unpack (expected 2, got 1)''))
      else Inr (conn, case protocol of Some p \<Rightarrow> p | None \<Rightarrow> []))"

subsection \<open>\<^verbatim>\<open>get_meta\<close>\<close>

text \<open>
  \<^verbatim>\<open>get_meta\<close> up to its call into the engine; the value is the engine call it makes.
\<close>

definition get_meta :: "conn_value \<Rightarrow> string \<Rightarrow> string option \<Rightarrow> py_error + engine_call" where
  "get_meta conn query protocol =
     (case rewrite_conn conn protocol of
        Inl e \<Rightarrow> Inl e
      | Inr (conn', protocol') \<Rightarrow> Inr (Engine_get_meta conn' protocol' query))"

subsection \<open>\<^verbatim>\<open>try_import_module\<close>\<close>

text \<open>
  \<^verbatim>\<open>importlib.import_module(name)\<close> succeeds exactly for the modules of the running
  environment, given as the list \<open>modules\<close> of importable names. The function is used
  only for its exception here, so the model returns no module object.
\<close>

definition try_import_module :: "string list \<Rightarrow> string \<Rightarrow> py_error + unit" where
  "try_import_module modules name =
     (if name \<in> set modules then Inr ()
      else Inl (ValueError (''You need to install '' @ hd (split_all CHR ''.'' name) @ '' first'')))"

subsection \<open>\<^verbatim>\<open>partition_sql\<close>\<close>

text \<open>
  \<^verbatim>\<open>partition_sql\<close> builds the \<^verbatim>\<open>partition_query\<close> dictionary and hands it to the engine's
  \<^verbatim>\<open>_partition_sql\<close>, here the parameter \<open>engine_partition_sql\<close>; \<^verbatim>\<open>conn\<close> is passed on
  as it is. \<^verbatim>\<open>partition_range and partition_range[0]\<close> is \<^verbatim>\<open>None\<close> for \<^verbatim>\<open>None\<close> and the
  first component for a pair.
\<close>

definition partition_sql ::
  "(conn_value \<Rightarrow> partition_query \<Rightarrow> 'r) \<Rightarrow> conn_value \<Rightarrow> string \<Rightarrow> string \<Rightarrow> int \<Rightarrow>
   (int \<times> int) option \<Rightarrow> 'r" where
  "partition_sql engine_partition_sql conn query partition_on partition_num partition_range =
     engine_partition_sql conn
       \<lparr> pq_query = query,
         pq_column = partition_on,
         pq_min = map_option fst partition_range,
         pq_max = map_option snd partition_range,
         pq_num = Some partition_num \<rparr>"

subsection \<open>\<^verbatim>\<open>read_sql\<close>\<close>

text \<open>
  \<^verbatim>\<open>read_sql\<close> up to its call into the engine: the value is the exception raised before
  any engine call, or the one engine call the function makes. What follows the call
  (\<^verbatim>\<open>reconstruct_pandas\<close>, \<^verbatim>\<open>reconstruct_arrow\<close>, the conversions by pandas, modin, dask
  and polars, \<^verbatim>\<open>set_index\<close>) works on the engine's answer and is not part of this
  function's model, so \<^verbatim>\<open>index_col\<close> is carried but not used. The arguments after
  \<open>query\<close> are the keyword arguments in the order of the signature. The body is given in
  three parts, in the order of the source.
\<close>

text \<open>
  The branch on the type of \<^verbatim>\<open>query\<close> for a single connection
  (\<^verbatim>\<open>if isinstance(query, str): ... elif isinstance(query, list): ... else: raise\<close>): the
  pair \<^verbatim>\<open>(queries, partition_query)\<close> or the exception.
\<close>

definition read_sql_queries ::
  "query_arg \<Rightarrow> string option \<Rightarrow> (int \<times> int) option \<Rightarrow> int option \<Rightarrow>
   py_error + (string list option \<times> partition_query option)" where
  "read_sql_queries query partition_on partition_range partition_num =
     (case query of
        QStr q0 \<Rightarrow>
          (let q = remove_ending_semicolon q0 in
           case partition_on of
             None \<Rightarrow> Inr (Some [q], None)
           | Some column \<Rightarrow>
               Inr (None,
                    Some \<lparr> pq_query = q,
                           pq_column = column,
                           pq_min = map_option fst partition_range,
                           pq_max = map_option snd partition_range,
                           pq_num = partition_num \<rparr>))
      | QList qs \<Rightarrow>
          if partition_on \<noteq> None
          then Inl (ValueError ''Partition on multiple queries is not supported.'')
          else Inr (Some (map remove_ending_semicolon qs), None)
      | QOther \<Rightarrow> Inl (ValueError ''query must be either str or a list of str''))"

text \<open>
  The branch on \<^verbatim>\<open>return_type\<close>, up to the engine call:
  \<^verbatim>\<open>if return_type in {"modin", "dask", "pandas"}: ... elif return_type in {"arrow",
  "arrow2", "polars", "polars2"}: ... else: raise ValueError(return_type)\<close>.
\<close>

definition read_sql_dispatch ::
  "string list \<Rightarrow> string \<Rightarrow> string \<Rightarrow> string list option \<Rightarrow> string \<Rightarrow> partition_query option \<Rightarrow>
   py_error + engine_call" where
  "read_sql_dispatch modules return_type conn queries protocol partition_query =
     (if return_type \<in> {''modin'', ''dask'', ''pandas''} then
        (case try_import_module modules ''pandas'' of
           Inl e \<Rightarrow> Inl e
         | Inr _ \<Rightarrow> Inr (Engine_read_sql conn ''pandas'' queries protocol partition_query))
      else if return_type \<in> {''arrow'', ''arrow2'', ''polars'', ''polars2''} then
        (case try_import_module modules ''pyarrow'' of
           Inl e \<Rightarrow> Inl e
         | Inr _ \<Rightarrow>
             Inr (Engine_read_sql conn
                    (if return_type \<in> {''arrow2'', ''polars'', ''polars2''}
                     then ''arrow2'' else ''arrow'')
                    queries protocol partition_query))
      else Inl (ValueError return_type))"

definition read_sql ::
  "string list \<Rightarrow> conn_arg \<Rightarrow> query_arg \<Rightarrow> string \<Rightarrow> string option \<Rightarrow> string option \<Rightarrow>
   (int \<times> int) option \<Rightarrow> int option \<Rightarrow> string option \<Rightarrow> py_error + engine_call" where
  "read_sql modules conn query0 return_type protocol partition_on partition_range
     partition_num index_col =
     (let query = (case query0 of
                     QList [q] \<Rightarrow> QStr (remove_ending_semicolon q)
                   | _ \<Rightarrow> query0)
      in
      case conn of
        Federated d \<Rightarrow>
          (let conn' = map (\<lambda>(k, v). (k, str_conn v)) d in
           case (partition_on, query) of
             (None, QStr q) \<Rightarrow>
               if protocol \<noteq> None
               then Inl (AssertionError
                      ''Federated query does not support specifying protocol for now'')
               else Inr (Engine_read_sql2 (remove_ending_semicolon q) conn')
           | _ \<Rightarrow> Inl (AssertionError
                      ''Federated query does not support query partitioning for now''))
      | Single c \<Rightarrow>
          (case read_sql_queries query partition_on partition_range partition_num of
             Inl e \<Rightarrow> Inl e
           | Inr (queries, partition_query) \<Rightarrow>
               (case rewrite_conn (ConnStr (str_conn c)) protocol of
                  Inl e \<Rightarrow> Inl e
                | Inr (conn2, protocol2) \<Rightarrow>
                    read_sql_dispatch modules return_type conn2 queries protocol2
                      partition_query)))"

subsection \<open>\<^verbatim>\<open>reconstruct_arrow\<close>\<close>

text \<open>
  The values of pyarrow are kept as the constructor calls that make them:
  \<^verbatim>\<open>pa.Array._import_from_c(*col_ptr)\<close> on a pair of addresses,
  \<^verbatim>\<open>pa.RecordBatch.from_arrays\<close>, \<^verbatim>\<open>pa.Table.from_arrays\<close> and \<^verbatim>\<open>pa.Table.from_batches\<close>.
  What pyarrow itself checks inside these calls is library behaviour and is not modelled.
\<close>

datatype arrow_array = Import_from_c nat nat

datatype record_batch = RecordBatch_from_arrays "arrow_array list" "string list"

datatype arrow_table =
    Table_from_arrays "arrow_array list"
  | Table_from_batches "record_batch list"

definition reconstruct_arrow :: "string list \<times> (nat \<times> nat) list list \<Rightarrow> arrow_table" where
  "reconstruct_arrow result =
     (case result of (names, ptrs) \<Rightarrow>
        if length names = 0 then Table_from_arrays []
        else Table_from_batches
               (map (\<lambda>chunk. RecordBatch_from_arrays
                              (map (\<lambda>(array_ptr, schema_ptr). Import_from_c array_ptr schema_ptr) chunk)
                              names)
                    ptrs))"

subsection \<open>\<^verbatim>\<open>reconstruct_pandas\<close>\<close>

text \<open>
  A numpy array is known by its \<^verbatim>\<open>shape\<close> and by where its memory is: the address of the
  exported buffer and the indices taken into it so far. An element of \<^verbatim>\<open>data\<close> is an array
  or a tuple of arrays (\<^verbatim>\<open>isinstance(data[0], tuple)\<close>).
\<close>

datatype ndarray = NDArray (shape: "nat list") (buffer: nat) (indices: "nat list")

datatype block_data = Arr ndarray | Tup "ndarray list"

record PandasBlockInfo =
  dt :: int
  cids :: "nat list"

record DataframeInfos =
  data :: "block_data list"
  headers :: "string list"
  block_infos :: "PandasBlockInfo list"

text \<open>
  The values of pandas, again as the constructor calls that make them. A block is
  \<^verbatim>\<open>make_block(values, placement=...)\<close>; the frame is
  \<^verbatim>\<open>DataFrame(BlockManager(blocks, [Index(headers), RangeIndex(start=0, stop=nrows, step=1)]))\<close>.
\<close>

datatype block_values =
    NumpyArray block_data
  | IntegerArray ndarray ndarray
  | BooleanArray ndarray ndarray
  | DatetimeArray block_data

datatype placement = Columns "nat list" | Column nat

datatype block = Make_block block_values placement

record DataFrame =
  df_blocks :: "block list"
  df_columns :: "string list"
  df_index_stop :: nat

text \<open>\<^verbatim>\<open>a.shape[-1]\<close>: the last dimension; the shape \<^verbatim>\<open>()\<close> has none.\<close>

definition shape_last :: "ndarray \<Rightarrow> py_error + nat" where
  "shape_last a =
     (case shape a of
        [] \<Rightarrow> Inl (IndexError ''tuple index out of range'')
      | d # ds \<Rightarrow> Inr (last (d # ds)))"

text \<open>
  \<^verbatim>\<open>block_data[i]\<close> for a literal index \<open>i\<close>: the component of a tuple, or the row of an
  array along its first axis.
\<close>

definition getitem :: "block_data \<Rightarrow> nat \<Rightarrow> py_error + ndarray" where
  "getitem b i =
     (case b of
        Tup xs \<Rightarrow>
          if i < length xs then Inr (xs ! i)
          else Inl (IndexError ''tuple index out of range'')
      | Arr a \<Rightarrow>
          (case shape a of
             [] \<Rightarrow> Inl (IndexError ''too many indices for array'')
           | d # ds \<Rightarrow>
               if i < d then Inr (NDArray ds (buffer a) (indices a @ [i]))
               else Inl (IndexError ''index out of bounds for axis 0'')))"

text \<open>\<^verbatim>\<open>str\<close> of an integer, for the message of the last branch.\<close>

fun str_nat :: "nat \<Rightarrow> string" where
  "str_nat n =
     (if n < 10 then [''0123456789'' ! n]
      else str_nat (n div 10) @ [''0123456789'' ! (n mod 10)])"

definition str_int :: "int \<Rightarrow> string" where
  "str_int i = (if i < 0 then ''-'' @ str_nat (nat (- i)) else str_nat (nat i))"

text \<open>
  The arguments shared by the \<^verbatim>\<open>IntegerArray\<close> and \<^verbatim>\<open>BooleanArray\<close> branches, in the
  order Python evaluates them: \<^verbatim>\<open>block_data[0]\<close>, \<^verbatim>\<open>block_data[1]\<close>, then
  \<^verbatim>\<open>binfo.cids[0]\<close>.
\<close>

definition masked_block ::
  "(ndarray \<Rightarrow> ndarray \<Rightarrow> block_values) \<Rightarrow> PandasBlockInfo \<Rightarrow> block_data \<Rightarrow> py_error + block" where
  "masked_block array_of binfo block_data =
     (case getitem block_data 0 of
        Inl e \<Rightarrow> Inl e
      | Inr vals \<Rightarrow>
          (case getitem block_data 1 of
             Inl e \<Rightarrow> Inl e
           | Inr msk \<Rightarrow>
               (case cids binfo of
                  [] \<Rightarrow> Inl (IndexError ''list index out of range'')
                | cid # _ \<Rightarrow> Inr (Make_block (array_of vals msk) (Column cid)))))"

text \<open>The body of the loop, for one pair of \<^verbatim>\<open>zip(block_infos, data)\<close>.\<close>

definition reconstruct_block :: "PandasBlockInfo \<Rightarrow> block_data \<Rightarrow> py_error + block" where
  "reconstruct_block binfo block_data =
     (if dt binfo = 0 then
        Inr (Make_block (NumpyArray block_data) (Columns (cids binfo)))
      else if dt binfo = 1 then masked_block IntegerArray binfo block_data
      else if dt binfo = 2 then masked_block BooleanArray binfo block_data
      else if dt binfo = 3 then
        Inr (Make_block (DatetimeArray block_data) (Columns (cids binfo)))
      else Inl (ValueError (''unknown dt: '' @ str_int (dt binfo))))"

text \<open>The loop: the blocks in order, or the first exception.\<close>

fun reconstruct_blocks :: "(PandasBlockInfo \<times> block_data) list \<Rightarrow> py_error + block list" where
  "reconstruct_blocks [] = Inr []"
| "reconstruct_blocks ((binfo, block_data) # rest) =
     (case reconstruct_block binfo block_data of
        Inl e \<Rightarrow> Inl e
      | Inr b \<Rightarrow>
          (case reconstruct_blocks rest of
             Inl e \<Rightarrow> Inl e
           | Inr bs \<Rightarrow> Inr (b # bs)))"

definition reconstruct_pandas :: "DataframeInfos \<Rightarrow> py_error + DataFrame" where
  "reconstruct_pandas df_infos =
     (case (case data df_infos of
              [] \<Rightarrow> Inl (IndexError ''list index out of range'')
            | Tup [] # _ \<Rightarrow> Inl (IndexError ''tuple index out of range'')
            | Tup (a # _) # _ \<Rightarrow> shape_last a
            | Arr a # _ \<Rightarrow> shape_last a)
      of
        Inl e \<Rightarrow> Inl e
      | Inr nrows \<Rightarrow>
          (case reconstruct_blocks (zip (block_infos df_infos) (data df_infos)) of
             Inl e \<Rightarrow> Inl e
           | Inr blocks \<Rightarrow>
               Inr \<lparr> df_blocks = blocks,
                     df_columns = headers df_infos,
                     df_index_stop = nrows \<rparr>))"

section \<open>The engine's partitioner\<close>

text \<open>
  Modelled from the spec: the engine function \<^verbatim>\<open>_partition_sql\<close>, which \<^verbatim>\<open>partition_sql\<close>
  calls, belongs to the compiled module \<^verbatim>\<open>.connectorx\<close> and its code is not among the
  sources. The definitions of this section follow section 4.1 of the specification
  (Partitioner) and the scenario of its section 8.

  A sub-query is the original query unmodified, or the original query wrapped as a derived
  table with a predicate on the partition column:
  \<^verbatim>\<open>SELECT * FROM (<query>) AS t WHERE t.<column> >= lo AND t.<column> < hi\<close>; the last
  partition uses \<^verbatim>\<open><=\<close> on its upper bound, the first has no lower bound. (Section 4.1 also
  calls the last partition unbounded above; its next sentence and the scenario give the last
  partition the closed upper bound \<^verbatim>\<open>max\<close>, which is what is modelled.)
\<close>

datatype spec_error = ConfigError | PartitionError

datatype range_pred =
    Below int
  | HalfOpen int int
  | Closed int int

datatype sub_sql =
    Unmodified string
  | Derived string string range_pred

record SubQuery =
  ordinal :: nat
  sql :: sub_sql

text \<open>Modelled from the spec: the width \<^verbatim>\<open>ceil((max-min+1)/num)\<close> of a range.\<close>

definition partition_width :: "int \<Rightarrow> int \<Rightarrow> int \<Rightarrow> int" where
  "partition_width mn mx num = - (- (mx - mn + 1) div num)"

text \<open>
  Modelled from the spec: the predicate of the partition with ordinal \<open>i\<close> among \<open>num\<close>
  contiguous ranges that start at \<open>mn\<close>.
\<close>

definition partition_pred :: "int \<Rightarrow> int \<Rightarrow> int \<Rightarrow> nat \<Rightarrow> range_pred" where
  "partition_pred mn mx num i =
     (let w = partition_width mn mx num;
          lo = mn + int i * w;
          hi = mn + (int i + 1) * w
      in if i = 0 then Below hi
         else if int i = num - 1 then Closed lo mx
         else HalfOpen lo hi)"

text \<open>
  Modelled from the spec: bounds discovery when the range is absent. The backend's answer
  to \<^verbatim>\<open>SELECT MIN(column), MAX(column) FROM (query)\<close> is the parameter \<open>discover\<close>, with
  \<open>None\<close> for an absent or non-orderable column.
\<close>

definition partition_bounds ::
  "(conn_value \<Rightarrow> string \<Rightarrow> string \<Rightarrow> (int \<times> int) option) \<Rightarrow> conn_value \<Rightarrow> partition_query \<Rightarrow>
   spec_error + (int \<times> int)" where
  "partition_bounds discover conn pq =
     (case (pq_min pq, pq_max pq) of
        (Some mn, Some mx) \<Rightarrow> Inr (mn, mx)
      | _ \<Rightarrow>
          (case discover conn (pq_query pq) (pq_column pq) of
             None \<Rightarrow> Inl PartitionError
           | Some (mn, mx) \<Rightarrow> if mn > mx then Inl PartitionError else Inr (mn, mx)))"

text \<open>
  Modelled from the spec: \<^verbatim>\<open>_partition_sql\<close>. The invariant \<open>num \<ge> 1\<close> of a
  \<^verbatim>\<open>PartitionSpec\<close> is checked first and its violation reported as \<^verbatim>\<open>ConfigError\<close>
  (invalid parameters); \<open>num = 1\<close> returns the original query; otherwise \<open>num\<close> derived
  sub-queries in ordinal order.
\<close>

definition spec_partition_sql ::
  "(conn_value \<Rightarrow> string \<Rightarrow> string \<Rightarrow> (int \<times> int) option) \<Rightarrow> conn_value \<Rightarrow> partition_query \<Rightarrow>
   spec_error + SubQuery list" where
  "spec_partition_sql discover conn pq =
     (case pq_num pq of
        None \<Rightarrow> Inl ConfigError
      | Some num \<Rightarrow>
          if num < 1 then Inl ConfigError
          else if num = 1 then Inr [\<lparr> ordinal = 0, sql = Unmodified (pq_query pq) \<rparr>]
          else
            (case partition_bounds discover conn pq of
               Inl e \<Rightarrow> Inl e
             | Inr (mn, mx) \<Rightarrow>
                 Inr (map (\<lambda>i. \<lparr> ordinal = i,
                                  sql = Derived (pq_query pq) (pq_column pq)
                                          (partition_pred mn mx num i) \<rparr>)
                          [0..<nat num])))"

text \<open>
  Modelled from the spec: running sub-queries. \<open>run\<close> gives the rows of a query text in
  source order, \<open>col_val\<close> the value of a named column in a row (\<open>None\<close> for NULL, which no
  comparison accepts); the results of the partitions are concatenated in ordinal order
  (section 4.4).
\<close>

fun holds :: "range_pred \<Rightarrow> int \<Rightarrow> bool" where
  "holds (Below hi) v = (v < hi)"
| "holds (HalfOpen lo hi) v = (lo \<le> v \<and> v < hi)"
| "holds (Closed lo hi) v = (lo \<le> v \<and> v \<le> hi)"

fun run_sub :: "(string \<Rightarrow> 'row list) \<Rightarrow> (string \<Rightarrow> 'row \<Rightarrow> int option) \<Rightarrow> sub_sql \<Rightarrow> 'row list" where
  "run_sub run col_val (Unmodified q) = run q"
| "run_sub run col_val (Derived q c p) =
     filter (\<lambda>r. case col_val c r of None \<Rightarrow> False | Some v \<Rightarrow> holds p v) (run q)"

definition run_partitions ::
  "(string \<Rightarrow> 'row list) \<Rightarrow> (string \<Rightarrow> 'row \<Rightarrow> int option) \<Rightarrow> SubQuery list \<Rightarrow> 'row list" where
  "run_partitions run col_val subs = concat (map (\<lambda>s. run_sub run col_val (sql s)) subs)"

section \<open>Helper lemmas\<close>

lemma partition_width_ceiling:
  "partition_width mn mx num = \<lceil>real_of_int (mx - mn + 1) / real_of_int num\<rceil>"
  unfolding partition_width_def by (simp only: ceiling_divide_eq_div)

lemma remove_ending_semicolon_snoc: "remove_ending_semicolon (q @ '';'') = q"
  by (simp add: remove_ending_semicolon_def)

lemma remove_ending_semicolon_other:
  "\<not> suffix '';'' q \<Longrightarrow> remove_ending_semicolon q = q"
  by (simp add: remove_ending_semicolon_def)

lemma suffix_semicolon_iff: "suffix '';'' q \<longleftrightarrow> (q \<noteq> [] \<and> last q = CHR '';'')"
  by (cases q rule: rev_cases) (auto simp: suffix_def)

lemma split_once_colon:
  "CHR '':'' \<notin> set b \<Longrightarrow> split_once CHR '':'' (b @ CHR '':'' # d) = [b, d]"
proof -
  assume b: "CHR '':'' \<notin> set b"
  have t: "takeWhile (\<lambda>c. c \<noteq> CHR '':'') (b @ CHR '':'' # d) = b"
    using b by (induction b) auto
  have d: "dropWhile (\<lambda>c. c \<noteq> CHR '':'') (b @ CHR '':'' # d) = CHR '':'' # d"
    using b by (induction b) auto
  show ?thesis by (simp add: split_once_def t d)
qed

section \<open>Partitioning\<close>

text \<open>
  Claim C1. The call \<^verbatim>\<open>partition_sql(conn, query='SELECT id, amount FROM t',
  partition_on='id', partition_num=4, partition_range=(1,100))\<close> returns exactly four
  sub-queries, in ordinal order, with the boundary predicates \<^verbatim>\<open>id<26\<close>, \<^verbatim>\<open>26<=id<51\<close>,
  \<^verbatim>\<open>51<=id<76\<close> and \<^verbatim>\<open>76<=id<=100\<close>: contiguous ranges of width
  \<^verbatim>\<open>ceil((100-1+1)/4) = 25\<close>, the first unbounded below. The Python function is the
  source's; the engine behind it is the partitioner modelled from the specification, for
  any backend \<open>discover\<close> and any connection.
\<close>

theorem partition_sql_scenario:
  "partition_sql (spec_partition_sql discover) conn ''SELECT id, amount FROM t'' ''id'' 4
     (Some (1, 100)) =
   Inr [\<lparr> ordinal = 0, sql = Derived ''SELECT id, amount FROM t'' ''id'' (Below 26) \<rparr>,
        \<lparr> ordinal = 1, sql = Derived ''SELECT id, amount FROM t'' ''id'' (HalfOpen 26 51) \<rparr>,
        \<lparr> ordinal = 2, sql = Derived ''SELECT id, amount FROM t'' ''id'' (HalfOpen 51 76) \<rparr>,
        \<lparr> ordinal = 3, sql = Derived ''SELECT id, amount FROM t'' ''id'' (Closed 76 100) \<rparr>]
   \<and> partition_width 1 100 4 = 25"
proof -
  have w: "partition_width 1 100 4 = 25"
    by (simp add: partition_width_def)
  have u: "[0..<4] = [0, 1, 2, Suc 2]"
    by (simp add: upt_rec)
  show ?thesis
    by (simp add: partition_sql_def spec_partition_sql_def partition_bounds_def
        partition_pred_def Let_def w u)
qed

text \<open>
  Claim C2. For every query, partition column and range (given or absent), partitioning
  with \<open>num = 1\<close> returns the original query unmodified as the single sub-query, with no
  predicate, so running the partitions gives exactly the rows of the unpartitioned query.
  Again the engine is the partitioner modelled from the specification.
\<close>

theorem partition_sql_num_one:
  "partition_sql (spec_partition_sql discover) conn query partition_on 1 partition_range =
     Inr [\<lparr> ordinal = 0, sql = Unmodified query \<rparr>]
   \<and> run_partitions run col_val [\<lparr> ordinal = 0, sql = Unmodified query \<rparr>] = run query"
  by (simp add: partition_sql_def spec_partition_sql_def run_partitions_def)

section \<open>Lemmas about \<^verbatim>\<open>rewrite_conn\<close> and \<^verbatim>\<open>read_sql\<close>\<close>

lemma read_sql_singleton_list:
  "read_sql modules conn (QList [q]) return_type protocol partition_on partition_range
     partition_num index_col =
   read_sql modules conn (QStr (remove_ending_semicolon q)) return_type protocol partition_on
     partition_range partition_num index_col"
  by (simp add: read_sql_def)

lemma remove_ending_semicolon_twice:
  "\<not> suffix '';;'' q \<Longrightarrow>
   remove_ending_semicolon (remove_ending_semicolon q) = remove_ending_semicolon q"
proof (cases q rule: rev_cases)
  case Nil
  then show ?thesis by (simp add: remove_ending_semicolon_def)
next
  case (snoc ys y)
  assume ns: "\<not> suffix '';;'' q"
  show ?thesis
  proof (cases "y = CHR '';''")
    case True
    then have q: "q = ys @ '';''" using snoc by simp
    have "\<not> suffix '';'' ys"
    proof
      assume "suffix '';'' ys"
      then obtain zs where "ys = zs @ '';''" by (auto simp: suffix_def)
      then have "q = zs @ '';;''" using q by simp
      then show False using ns by (auto simp: suffix_def)
    qed
    then show ?thesis using q by (simp add: remove_ending_semicolon_def)
  next
    case False
    then have "\<not> suffix '';'' q" using snoc by (auto simp: suffix_def)
    then show ?thesis by (simp add: remove_ending_semicolon_def)
  qed
qed

lemma rewrite_conn_explicit:
  "p \<noteq> [] \<Longrightarrow> rewrite_conn conn (Some p) = Inr (str_conn conn, p)"
  by (simp add: rewrite_conn_def truthy_def)

lemma rewrite_conn_empty: "str_conn conn = [] \<Longrightarrow> rewrite_conn conn None = Inr ([], ''binary'')"
  by (simp add: rewrite_conn_def truthy_def)

lemma rewrite_conn_backend:
  assumes "str_conn conn = backend @ CHR '':'' # details" and "CHR '':'' \<notin> set backend"
  shows "rewrite_conn conn None =
         Inr (if sublist ''redshift'' backend then (''postgresql:'' @ details, ''cursor'')
              else if sublist ''clickhouse'' backend then (''mysql:'' @ details, ''text'')
              else (backend @ CHR '':'' # details, ''binary''))"
  using assms by (simp add: rewrite_conn_def truthy_def split_once_colon)

lemma rewrite_conn_no_colon:
  assumes "str_conn conn \<noteq> []" and "CHR '':'' \<notin> set (str_conn conn)"
  shows "rewrite_conn conn None =
         Inl (ValueError ''not enough values to unpack (expected 2, got 1)'')"
  using assms by (simp add: rewrite_conn_def truthy_def split_once_def)

lemma colon_decompose:
  "CHR '':'' \<in> set s \<Longrightarrow>
   s = takeWhile (\<lambda>c. c \<noteq> CHR '':'') s @ CHR '':'' # tl (dropWhile (\<lambda>c. c \<noteq> CHR '':'') s)
   \<and> CHR '':'' \<notin> set (takeWhile (\<lambda>c. c \<noteq> CHR '':'') s)"
proof -
  assume c: "CHR '':'' \<in> set s"
  have d: "dropWhile (\<lambda>c. c \<noteq> CHR '':'') s \<noteq> []"
    using c by (simp add: dropWhile_eq_Nil_conv)
  then have h: "hd (dropWhile (\<lambda>c. c \<noteq> CHR '':'') s) = CHR '':''"
    using hd_dropWhile [of "\<lambda>c. c \<noteq> CHR '':''" s] by simp
  have "s = takeWhile (\<lambda>c. c \<noteq> CHR '':'') s @ dropWhile (\<lambda>c. c \<noteq> CHR '':'') s"
    by simp
  also have "dropWhile (\<lambda>c. c \<noteq> CHR '':'') s =
             CHR '':'' # tl (dropWhile (\<lambda>c. c \<noteq> CHR '':'') s)"
    using d h by (cases "dropWhile (\<lambda>c. c \<noteq> CHR '':'') s") auto
  finally have "s = takeWhile (\<lambda>c. c \<noteq> CHR '':'') s @
                    CHR '':'' # tl (dropWhile (\<lambda>c. c \<noteq> CHR '':'') s)" .
  moreover have "CHR '':'' \<notin> set (takeWhile (\<lambda>c. c \<noteq> CHR '':'') s)"
    by (auto dest: set_takeWhileD)
  ultimately show ?thesis by blast
qed

lemma rewrite_conn_default_protocol:
  assumes "rewrite_conn conn None = Inr (conn', p)"
  shows "p = (let backend = takeWhile (\<lambda>c. c \<noteq> CHR '':'') (str_conn conn)
              in if sublist ''redshift'' backend then ''cursor''
                 else if sublist ''clickhouse'' backend then ''text''
                 else ''binary'')"
proof (cases "str_conn conn = []")
  case True
  then show ?thesis using assms by (simp add: rewrite_conn_empty)
next
  case False
  show ?thesis
  proof (cases "CHR '':'' \<in> set (str_conn conn)")
    case True
    define backend where "backend = takeWhile (\<lambda>c. c \<noteq> CHR '':'') (str_conn conn)"
    define details where "details = tl (dropWhile (\<lambda>c. c \<noteq> CHR '':'') (str_conn conn))"
    have dec: "str_conn conn = backend @ CHR '':'' # details" "CHR '':'' \<notin> set backend"
      using colon_decompose [OF True] by (simp_all add: backend_def details_def)
    have "Inr (conn', p) =
          Inr (if sublist ''redshift'' backend then (''postgresql:'' @ details, ''cursor'')
               else if sublist ''clickhouse'' backend then (''mysql:'' @ details, ''text'')
               else (backend @ CHR '':'' # details, ''binary''))"
      using rewrite_conn_backend [OF dec] assms by simp
    then have "p = (if sublist ''redshift'' backend then ''cursor''
                    else if sublist ''clickhouse'' backend then ''text'' else ''binary'')"
      by (simp split: if_splits)
    then show ?thesis by (simp add: Let_def backend_def)
  next
    case False
    with \<open>str_conn conn \<noteq> []\<close> assms show ?thesis
      by (simp add: rewrite_conn_no_colon)
  qed
qed

lemma read_sql_dispatch_call:
  assumes "read_sql_dispatch modules return_type conn queries protocol pq = Inr call"
  shows "\<exists>kind. call = Engine_read_sql conn kind queries protocol pq"
proof (cases "return_type \<in> {''modin'', ''dask'', ''pandas''}")
  case True
  with assms show ?thesis
    unfolding read_sql_dispatch_def
    by (simp only: if_True sum.inject sum.distinct split: sum.splits) blast
next
  case False
  note nf = this
  show ?thesis
  proof (cases "return_type \<in> {''arrow'', ''arrow2'', ''polars'', ''polars2''}")
    case True
    with assms nf show ?thesis
      unfolding read_sql_dispatch_def
      by (simp only: if_True if_False sum.inject sum.distinct split: sum.splits) blast
  next
    case False
    with assms nf show ?thesis
      unfolding read_sql_dispatch_def
      by (simp only: if_False sum.distinct)
  qed
qed

lemma read_sql_dispatch_ok:
  assumes "(return_type \<in> {''modin'', ''dask'', ''pandas''} \<and> ''pandas'' \<in> set modules) \<or>
           (return_type \<in> {''arrow'', ''arrow2'', ''polars'', ''polars2''} \<and>
            ''pyarrow'' \<in> set modules)"
  shows "read_sql_dispatch modules return_type conn queries protocol pq =
         Inr (Engine_read_sql conn
                (if return_type \<in> {''modin'', ''dask'', ''pandas''} then ''pandas''
                 else if return_type \<in> {''arrow2'', ''polars'', ''polars2''} then ''arrow2''
                 else ''arrow'')
                queries protocol pq)"
proof -
  have p: "''pandas'' \<in> set modules \<Longrightarrow> try_import_module modules ''pandas'' = Inr ()"
    and a: "''pyarrow'' \<in> set modules \<Longrightarrow> try_import_module modules ''pyarrow'' = Inr ()"
    by (simp_all add: try_import_module_def)
  from assms show ?thesis
  proof (elim disjE conjE)
    assume h: "return_type \<in> {''modin'', ''dask'', ''pandas''}" "''pandas'' \<in> set modules"
    show ?thesis
      unfolding read_sql_dispatch_def
      by (simp only: if_P [OF h(1)] p [OF h(2)] sum.case)
  next
    assume h: "return_type \<in> {''arrow'', ''arrow2'', ''polars'', ''polars2''}"
      "''pyarrow'' \<in> set modules"
    have n: "return_type \<notin> {''modin'', ''dask'', ''pandas''}"
      using h(1) by auto
    show ?thesis
      unfolding read_sql_dispatch_def
      by (simp only: if_not_P [OF n] if_P [OF h(1)] a [OF h(2)] sum.case)
  qed
qed

lemma read_sql_single_unfold:
  "read_sql modules (Single c) query return_type protocol partition_on partition_range
     partition_num index_col =
   (case read_sql_queries
           (case query of QList [q] \<Rightarrow> QStr (remove_ending_semicolon q) | _ \<Rightarrow> query)
           partition_on partition_range partition_num of
      Inl e \<Rightarrow> Inl e
    | Inr (queries, partition_query) \<Rightarrow>
        (case rewrite_conn (ConnStr (str_conn c)) protocol of
           Inl e \<Rightarrow> Inl e
         | Inr (conn2, protocol2) \<Rightarrow>
             read_sql_dispatch modules return_type conn2 queries protocol2 partition_query))"
  unfolding read_sql_def by (simp only: Let_def conn_arg.case)

lemma read_sql_single_call:
  assumes "read_sql modules (Single c) query return_type protocol partition_on partition_range
             partition_num index_col = Inr call"
  shows "\<exists>queries pq conn2 protocol2 kind.
           read_sql_queries
             (case query of QList [q] \<Rightarrow> QStr (remove_ending_semicolon q) | _ \<Rightarrow> query)
             partition_on partition_range partition_num = Inr (queries, pq) \<and>
           rewrite_conn (ConnStr (str_conn c)) protocol = Inr (conn2, protocol2) \<and>
           call = Engine_read_sql conn2 kind queries protocol2 pq"
proof -
  define query' where
    "query' = (case query of QList [q] \<Rightarrow> QStr (remove_ending_semicolon q) | _ \<Rightarrow> query)"
  note u = read_sql_single_unfold [of modules c query return_type protocol partition_on
      partition_range partition_num index_col, folded query'_def]
  obtain queries pq where
    q: "read_sql_queries query' partition_on partition_range partition_num = Inr (queries, pq)"
    using assms u
    by (cases "read_sql_queries query' partition_on partition_range partition_num") auto
  obtain conn2 protocol2 where
    r: "rewrite_conn (ConnStr (str_conn c)) protocol = Inr (conn2, protocol2)"
    using assms u q by (cases "rewrite_conn (ConnStr (str_conn c)) protocol") auto
  have "read_sql_dispatch modules return_type conn2 queries protocol2 pq = Inr call"
    using assms u q r by simp
  from read_sql_dispatch_call [OF this] obtain kind where
    "call = Engine_read_sql conn2 kind queries protocol2 pq" by blast
  with q r show ?thesis unfolding query'_def by blast
qed

lemma read_sql_queries_list:
  assumes "\<forall>q. qs = [q] \<longrightarrow> \<not> suffix '';;'' q"
  shows "read_sql_queries
           (case QList qs of QList [q] \<Rightarrow> QStr (remove_ending_semicolon q) | _ \<Rightarrow> QList qs)
           None partition_range partition_num =
         Inr (Some (map remove_ending_semicolon qs), None)"
proof (cases qs)
  case Nil
  then show ?thesis by (simp add: read_sql_queries_def)
next
  case (Cons q rest)
  show ?thesis
  proof (cases rest)
    case Nil
    with Cons assms have "\<not> suffix '';;'' q" by simp
    then show ?thesis using Cons Nil
      by (simp add: read_sql_queries_def remove_ending_semicolon_twice)
  next
    case (Cons q2 rest2)
    with \<open>qs = q # rest\<close> show ?thesis by (simp add: read_sql_queries_def)
  qed
qed

section \<open>Calls of \<^verbatim>\<open>read_sql\<close> that fail before the engine\<close>

text \<open>
  Claim C4. A federated call of \<^verbatim>\<open>read_sql\<close> (the connection is a dict of named sources)
  that supplies a \<^verbatim>\<open>partition_on\<close> or a \<^verbatim>\<open>protocol\<close> fails, for every query argument,
  with one of the two assertion errors of the federated branch; its value is an exception,
  so \<^verbatim>\<open>_read_sql2\<close> is not called.
\<close>

theorem read_sql_federated_rejects:
  assumes "partition_on \<noteq> None \<or> protocol \<noteq> None"
  shows "read_sql modules (Federated d) query return_type protocol partition_on partition_range
           partition_num index_col
         \<in> {Inl (AssertionError ''Federated query does not support query partitioning for now''),
            Inl (AssertionError ''Federated query does not support specifying protocol for now'')}"
  using assms
  by (auto simp: read_sql_def split: query_arg.splits list.splits option.splits)

text \<open>The hypothesis of the theorem for C4 at a concrete federated call.\<close>

theorem read_sql_federated_rejects_witness:
  "read_sql [''pandas''] (Federated [(''db1'', ConnStr ''postgresql://h/a'')])
     (QStr ''SELECT * FROM db1.t'') ''pandas'' None (Some ''id'') (Some (1, 100)) (Some 4) None
   \<in> {Inl (AssertionError ''Federated query does not support query partitioning for now''),
      Inl (AssertionError ''Federated query does not support specifying protocol for now'')}"
  using read_sql_federated_rejects [of "Some ''id''" None "[''pandas'']"
      "[(''db1'', ConnStr ''postgresql://h/a'')]" "QStr ''SELECT * FROM db1.t''" "''pandas''"
      "Some (1, 100)" "Some 4" None]
  by simp

text \<open>
  Claim C3 says that every call with a list of queries and a \<^verbatim>\<open>partition_on\<close> fails
  before the engine is invoked. A list of one query does not: \<^verbatim>\<open>read_sql\<close> first replaces
  it by its only element, and the call reaches the engine with a \<^verbatim>\<open>partition_query\<close>.
\<close>

theorem read_sql_singleton_list_partition_counterexample:
  "read_sql [''pandas''] (Single (ConnStr ''postgresql://h/db'')) (QList [''SELECT * FROM t''])
     ''pandas'' None (Some ''id'') (Some (1, 100)) (Some 4) None =
   Inr (Engine_read_sql ''postgresql://h/db'' ''pandas'' None ''binary''
          (Some \<lparr> pq_query = ''SELECT * FROM t'', pq_column = ''id'', pq_min = Some 1,
                  pq_max = Some 100, pq_num = Some 4 \<rparr>))"
  by code_simp

text \<open>
  Claim C3, amended. A call of \<^verbatim>\<open>read_sql\<close> with a list of queries whose length is not one
  and a \<^verbatim>\<open>partition_on\<close> raises before any engine call:
  \<^verbatim>\<open>ValueError("Partition on multiple queries is not supported.")\<close> for a single connection,
  the assertion error of the federated branch for a dict of connections.
\<close>

theorem read_sql_list_with_partition_on:
  assumes "length qs \<noteq> 1" and "partition_on \<noteq> None"
  shows "read_sql modules conn (QList qs) return_type protocol partition_on partition_range
           partition_num index_col =
         (case conn of
            Single c \<Rightarrow> Inl (ValueError ''Partition on multiple queries is not supported.'')
          | Federated d \<Rightarrow>
              Inl (AssertionError
                     ''Federated query does not support query partitioning for now''))"
  using assms
  by (auto simp: read_sql_def read_sql_queries_def split: conn_arg.splits list.splits)

text \<open>The hypotheses of the amended C3 at a call with two queries.\<close>

theorem read_sql_list_with_partition_on_witness:
  "read_sql [''pandas''] (Single (ConnStr ''postgresql://h/db'')) (QList [''SELECT 1'', ''SELECT 2''])
     ''pandas'' None (Some ''id'') None (Some 2) None =
   Inl (ValueError ''Partition on multiple queries is not supported.'')"
  using read_sql_list_with_partition_on [of "[''SELECT 1'', ''SELECT 2'']" "Some ''id''"
      "[''pandas'']" "Single (ConnStr ''postgresql://h/db'')" "''pandas''" None None "Some 2" None]
  by simp

section \<open>Lists of queries\<close>

text \<open>
  Claim C5 says that a list of queries reaches the engine verbatim. The engine receives
  \<^verbatim>\<open>"SELECT 1"\<close> for the listed \<^verbatim>\<open>"SELECT 1;"\<close>: each element passes through
  \<^verbatim>\<open>remove_ending_semicolon\<close>.
\<close>

theorem read_sql_list_not_verbatim_counterexample:
  "read_sql [''pandas''] (Single (ConnStr ''postgresql://h/db''))
     (QList [''SELECT 1;'', ''SELECT 2'']) ''pandas'' None None None None None =
   Inr (Engine_read_sql ''postgresql://h/db'' ''pandas'' (Some [''SELECT 1'', ''SELECT 2''])
          ''binary'' None)
   \<and> [''SELECT 1'', ''SELECT 2''] \<noteq> [''SELECT 1;'', ''SELECT 2'']"
  by code_simp

text \<open>
  Claim C5, amended. For a single connection, no \<^verbatim>\<open>partition_on\<close> and a list of queries
  (a one-element list only when its query does not end with two semicolons): every engine
  call of \<^verbatim>\<open>read_sql\<close> is \<^verbatim>\<open>_read_sql\<close> with \<^verbatim>\<open>partition_query=None\<close> and with the listed
  queries in the given order, each without its ending semicolon; and the engine is called
  whenever \<^verbatim>\<open>rewrite_conn\<close> accepts the connection, the return type is known and its
  module (pandas or pyarrow) can be imported.
\<close>

theorem read_sql_list_queries:
  assumes "\<forall>q. qs = [q] \<longrightarrow> \<not> suffix '';;'' q"
  shows "(\<forall>call. read_sql modules (Single c) (QList qs) return_type protocol None
                   partition_range partition_num index_col = Inr call \<longrightarrow>
            (\<exists>conn2 kind protocol2.
               call = Engine_read_sql conn2 kind (Some (map remove_ending_semicolon qs))
                        protocol2 None))
       \<and> (\<forall>conn2 protocol2.
            rewrite_conn (ConnStr (str_conn c)) protocol = Inr (conn2, protocol2) \<longrightarrow>
            (return_type \<in> {''modin'', ''dask'', ''pandas''} \<and> ''pandas'' \<in> set modules) \<or>
            (return_type \<in> {''arrow'', ''arrow2'', ''polars'', ''polars2''} \<and>
             ''pyarrow'' \<in> set modules) \<longrightarrow>
            read_sql modules (Single c) (QList qs) return_type protocol None
              partition_range partition_num index_col =
            Inr (Engine_read_sql conn2
                   (if return_type \<in> {''modin'', ''dask'', ''pandas''} then ''pandas''
                    else if return_type \<in> {''arrow2'', ''polars'', ''polars2''} then ''arrow2''
                    else ''arrow'')
                   (Some (map remove_ending_semicolon qs)) protocol2 None))"
proof (intro conjI allI impI)
  fix call
  assume "read_sql modules (Single c) (QList qs) return_type protocol None
            partition_range partition_num index_col = Inr call"
  from read_sql_single_call [OF this] obtain queries pq conn2 protocol2 kind where
    q: "read_sql_queries
          (case QList qs of QList [q] \<Rightarrow> QStr (remove_ending_semicolon q) | _ \<Rightarrow> QList qs)
          None partition_range partition_num = Inr (queries, pq)"
    and c: "call = Engine_read_sql conn2 kind queries protocol2 pq"
    by blast
  from q read_sql_queries_list [OF assms, of partition_range partition_num]
  have "queries = Some (map remove_ending_semicolon qs)" "pq = None" by simp_all
  with c show "\<exists>conn2 kind protocol2.
      call = Engine_read_sql conn2 kind (Some (map remove_ending_semicolon qs)) protocol2 None"
    by blast
next
  fix conn2 protocol2
  assume r: "rewrite_conn (ConnStr (str_conn c)) protocol = Inr (conn2, protocol2)"
    and m: "(return_type \<in> {''modin'', ''dask'', ''pandas''} \<and> ''pandas'' \<in> set modules) \<or>
            (return_type \<in> {''arrow'', ''arrow2'', ''polars'', ''polars2''} \<and>
             ''pyarrow'' \<in> set modules)"
  have "read_sql modules (Single c) (QList qs) return_type protocol None
          partition_range partition_num index_col =
        read_sql_dispatch modules return_type conn2 (Some (map remove_ending_semicolon qs))
          protocol2 None"
    by (simp only: read_sql_single_unfold
        read_sql_queries_list [OF assms] r sum.case prod.case)
  also note read_sql_dispatch_ok [OF m]
  finally show "read_sql modules (Single c) (QList qs) return_type protocol None
          partition_range partition_num index_col =
        Inr (Engine_read_sql conn2
               (if return_type \<in> {''modin'', ''dask'', ''pandas''} then ''pandas''
                else if return_type \<in> {''arrow2'', ''polars'', ''polars2''} then ''arrow2''
                else ''arrow'')
               (Some (map remove_ending_semicolon qs)) protocol2 None)" .
qed

text \<open>The hypotheses of the amended C5 at the call of the counterexample.\<close>

theorem read_sql_list_queries_witness:
  "read_sql [''pandas''] (Single (ConnStr ''postgresql://h/db''))
     (QList [''SELECT 1;'', ''SELECT 2'']) ''pandas'' None None None None None =
   Inr (Engine_read_sql ''postgresql://h/db'' ''pandas'' (Some [''SELECT 1'', ''SELECT 2''])
          ''binary'' None)"
proof -
  have h: "\<forall>q. [''SELECT 1;'', ''SELECT 2''] = [q] \<longrightarrow> \<not> suffix '';;'' q"
    by simp
  have r: "rewrite_conn (ConnStr (str_conn (ConnStr ''postgresql://h/db''))) None =
           Inr (''postgresql://h/db'', ''binary'')"
    by code_simp
  have m: "(''pandas'' \<in> {''modin'', ''dask'', ''pandas''} \<and> ''pandas'' \<in> set [''pandas'']) \<or>
           (''pandas'' \<in> {''arrow'', ''arrow2'', ''polars'', ''polars2''} \<and>
            ''pyarrow'' \<in> set [''pandas''])"
    by simp
  have e: "map remove_ending_semicolon [''SELECT 1;'', ''SELECT 2''] =
           [''SELECT 1'', ''SELECT 2'']"
    by code_simp
  note t = read_sql_list_queries [OF h, THEN conjunct2, rule_format, OF r m,
      of None None None]
  show ?thesis using t e by simp
qed

section \<open>The protocol chosen by \<^verbatim>\<open>rewrite_conn\<close>\<close>

lemma get_meta_call:
  assumes "get_meta conn query None = Inr call"
  shows "\<exists>conn' p. rewrite_conn conn None = Inr (conn', p) \<and> call = Engine_get_meta conn' p query"
  using assms unfolding get_meta_def
  by (cases "rewrite_conn conn None") auto

text \<open>
  Claim C6 says that a call without a protocol always selects \<^verbatim>\<open>binary\<close>. For a redshift
  connection \<^verbatim>\<open>get_meta\<close> passes \<^verbatim>\<open>cursor\<close> to the engine, and for a clickhouse connection
  \<^verbatim>\<open>read_sql\<close> passes \<^verbatim>\<open>text\<close>.
\<close>

theorem default_protocol_counterexample:
  "get_meta (ConnStr ''redshift://u:p@h:5439/db'') ''SELECT 1'' None =
     Inr (Engine_get_meta ''postgresql://u:p@h:5439/db'' ''cursor'' ''SELECT 1'')
   \<and> read_sql [''pandas''] (Single (ConnStr ''clickhouse://u:p@h:9004/db'')) (QStr ''SELECT 1'')
       ''pandas'' None None None None None =
     Inr (Engine_read_sql ''mysql://u:p@h:9004/db'' ''pandas'' (Some [''SELECT 1'']) ''text''
            None)"
  by code_simp

text \<open>
  Claim C6, amended. When the caller gives no protocol, the protocol that \<^verbatim>\<open>get_meta\<close> and
  a non-federated \<^verbatim>\<open>read_sql\<close> pass to the engine is decided by the backend part of the
  connection string (the text before its first colon): \<^verbatim>\<open>cursor\<close> if it contains
  \<^verbatim>\<open>redshift\<close>, else \<^verbatim>\<open>text\<close> if it contains \<^verbatim>\<open>clickhouse\<close>, else \<^verbatim>\<open>binary\<close>. This
  holds for every engine call the two functions make, and \<^verbatim>\<open>get_meta\<close> does make the call
  when the connection string is empty or has a colon.
\<close>

theorem default_protocol_by_backend:
  "let backend = takeWhile (\<lambda>c. c \<noteq> CHR '':'') (str_conn conn);
       expected = (if sublist ''redshift'' backend then ''cursor''
                   else if sublist ''clickhouse'' backend then ''text''
                   else ''binary'')
   in (\<forall>conn' p query'.
         get_meta conn query None = Inr (Engine_get_meta conn' p query') \<longrightarrow> p = expected)
    \<and> (\<forall>conn' kind queries p pq.
         read_sql modules (Single conn) q return_type None partition_on partition_range
           partition_num index_col = Inr (Engine_read_sql conn' kind queries p pq) \<longrightarrow>
         p = expected)
    \<and> (str_conn conn = [] \<or> CHR '':'' \<in> set (str_conn conn) \<longrightarrow>
         (\<exists>conn'. get_meta conn query None = Inr (Engine_get_meta conn' expected query)))"
proof -
  define expected where
    "expected = (let backend = takeWhile (\<lambda>c. c \<noteq> CHR '':'') (str_conn conn)
                 in if sublist ''redshift'' backend then ''cursor''
                    else if sublist ''clickhouse'' backend then ''text''
                    else ''binary'')"
  have rc: "p = expected" if "rewrite_conn conn None = Inr (conn', p)" for conn' p
    using rewrite_conn_default_protocol [OF that] by (simp add: expected_def)
  have a: "p = expected"
    if "get_meta conn query None = Inr (Engine_get_meta conn' p query')" for conn' p query'
  proof -
    from get_meta_call [OF that] obtain c2 p2 where
      "rewrite_conn conn None = Inr (c2, p2)" "Engine_get_meta conn' p query' = Engine_get_meta c2 p2 query"
      by blast
    then show ?thesis using rc by simp
  qed
  have b: "p = expected"
    if "read_sql modules (Single conn) q return_type None partition_on partition_range
          partition_num index_col = Inr (Engine_read_sql conn' kind queries p pq)"
    for conn' kind queries p pq
  proof -
    from read_sql_single_call [OF that] obtain c2 p2 where
      r: "rewrite_conn (ConnStr (str_conn conn)) None = Inr (c2, p2)" and "p = p2"
      by auto
    have "rewrite_conn (ConnStr (str_conn conn)) None = rewrite_conn conn None"
      by (simp add: rewrite_conn_def)
    with r have "rewrite_conn conn None = Inr (c2, p2)" by simp
    from rc [OF this] \<open>p = p2\<close> show ?thesis by simp
  qed
  have c: "\<exists>conn'. get_meta conn query None = Inr (Engine_get_meta conn' expected query)"
    if "str_conn conn = [] \<or> CHR '':'' \<in> set (str_conn conn)"
  proof -
    have "\<exists>conn' p. rewrite_conn conn None = Inr (conn', p)"
    proof (cases "str_conn conn = []")
      case True
      then show ?thesis by (simp add: rewrite_conn_empty)
    next
      case False
      with that have "CHR '':'' \<in> set (str_conn conn)" by simp
      from colon_decompose [OF this] obtain b d where
        "str_conn conn = b @ CHR '':'' # d" "CHR '':'' \<notin> set b" by blast
      from rewrite_conn_backend [OF this] show ?thesis by (simp split: if_splits)
    qed
    then obtain conn' p where r: "rewrite_conn conn None = Inr (conn', p)" by blast
    from rc [OF r] r show ?thesis by (simp add: get_meta_def)
  qed
  show ?thesis
    unfolding Let_def expected_def [unfolded Let_def, symmetric]
    using a b c by blast
qed

text \<open>The last hypothesis of the amended C6 at a clickhouse connection.\<close>

theorem default_protocol_by_backend_witness:
  "\<exists>conn'. get_meta (ConnStr ''clickhouse://u:p@h:9004/db'') ''SELECT 1'' None =
             Inr (Engine_get_meta conn' ''text'' ''SELECT 1'')"
proof -
  have b: "takeWhile (\<lambda>c. c \<noteq> CHR '':'') (str_conn (ConnStr ''clickhouse://u:p@h:9004/db'')) =
           ''clickhouse''"
    by simp
  have r: "\<not> sublist ''redshift'' ''clickhouse''" by code_simp
  have k: "sublist ''clickhouse'' ''clickhouse''" by simp
  have h: "str_conn (ConnStr ''clickhouse://u:p@h:9004/db'') = [] \<or>
           CHR '':'' \<in> set (str_conn (ConnStr ''clickhouse://u:p@h:9004/db''))"
    by simp
  from default_protocol_by_backend [of "ConnStr ''clickhouse://u:p@h:9004/db''" "''SELECT 1''",
      unfolded Let_def b, THEN conjunct2, THEN conjunct2, rule_format, OF h]
  show ?thesis using r k by simp
qed

text \<open>
  What \<^verbatim>\<open>rewrite_conn\<close> returns on the connection strings it accepts. For a string
  \<^verbatim>\<open>backend:details\<close> (no colon in \<open>backend\<close>) and no protocol: \<^verbatim>\<open>postgresql:details\<close>
  with \<^verbatim>\<open>cursor\<close> when \<open>backend\<close> contains \<^verbatim>\<open>redshift\<close>, otherwise \<^verbatim>\<open>mysql:details\<close>
  with \<^verbatim>\<open>text\<close> when it contains \<^verbatim>\<open>clickhouse\<close>, otherwise the string unchanged with
  \<^verbatim>\<open>binary\<close>. The empty string is returned unchanged with \<^verbatim>\<open>binary\<close>, and with a
  non-empty protocol both the connection string and the protocol are returned unchanged.
\<close>

lemma rewrite_conn_cases:
  "(str_conn conn = backend @ '':'' @ details \<and> CHR '':'' \<notin> set backend \<longrightarrow>
      rewrite_conn conn None =
        Inr (if sublist ''redshift'' backend then (''postgresql:'' @ details, ''cursor'')
             else if sublist ''clickhouse'' backend then (''mysql:'' @ details, ''text'')
             else (str_conn conn, ''binary'')))
   \<and> (str_conn conn = [] \<longrightarrow> rewrite_conn conn None = Inr ([], ''binary''))
   \<and> (p \<noteq> [] \<longrightarrow> rewrite_conn conn (Some p) = Inr (str_conn conn, p))"
proof (intro conjI impI)
  assume "str_conn conn = backend @ '':'' @ details \<and> CHR '':'' \<notin> set backend"
  then have d: "str_conn conn = backend @ CHR '':'' # details" "CHR '':'' \<notin> set backend"
    by simp_all
  from rewrite_conn_backend [OF d] d(1)
  show "rewrite_conn conn None =
        Inr (if sublist ''redshift'' backend then (''postgresql:'' @ details, ''cursor'')
             else if sublist ''clickhouse'' backend then (''mysql:'' @ details, ''text'')
             else (str_conn conn, ''binary''))"
    by simp
next
  assume "str_conn conn = []"
  then show "rewrite_conn conn None = Inr ([], ''binary'')" by (rule rewrite_conn_empty)
next
  assume "p \<noteq> []"
  then show "rewrite_conn conn (Some p) = Inr (str_conn conn, p)" by (rule rewrite_conn_explicit)
qed

text \<open>The lemma at a redshift connection and at the empty string.\<close>

lemma rewrite_conn_redshift_example:
  "rewrite_conn (ConnStr ''redshift+psycopg2://u:p@h:5439/db'') None =
     Inr (''postgresql://u:p@h:5439/db'', ''cursor'')
   \<and> rewrite_conn (ConnStr ''redshift+psycopg2://u:p@h:5439/db'') (Some ''csv'') =
     Inr (''redshift+psycopg2://u:p@h:5439/db'', ''csv'')
   \<and> rewrite_conn (ConnStr []) None = Inr ([], ''binary'')"
proof -
  have r: "sublist ''redshift'' ''redshift+psycopg2''" by code_simp
  have h: "str_conn (ConnStr ''redshift+psycopg2://u:p@h:5439/db'') =
             ''redshift+psycopg2'' @ '':'' @ ''//u:p@h:5439/db'' \<and>
           CHR '':'' \<notin> set ''redshift+psycopg2''"
    by simp
  have n: "''csv'' \<noteq> []" by simp
  note t = rewrite_conn_cases [of "ConnStr ''redshift+psycopg2://u:p@h:5439/db''"
      "''redshift+psycopg2''" "''//u:p@h:5439/db''" "''csv''"]
  note e = rewrite_conn_cases [of "ConnStr []" "[]" "[]" "''csv''"]
  from t [THEN conjunct1, rule_format, OF h] r
  have a: "rewrite_conn (ConnStr ''redshift+psycopg2://u:p@h:5439/db'') None =
           Inr (''postgresql://u:p@h:5439/db'', ''cursor'')"
    by simp
  from t [THEN conjunct2, THEN conjunct2, rule_format, OF n]
  have b: "rewrite_conn (ConnStr ''redshift+psycopg2://u:p@h:5439/db'') (Some ''csv'') =
           Inr (''redshift+psycopg2://u:p@h:5439/db'', ''csv'')"
    by simp
  from e [THEN conjunct2, THEN conjunct1, rule_format]
  have c: "rewrite_conn (ConnStr []) None = Inr ([], ''binary'')" by simp
  from a b c show ?thesis by (intro conjI)
qed

text \<open>
  Claim C8 says that \<^verbatim>\<open>rewrite_conn\<close> with no protocol returns every connection string that
  names neither redshift nor clickhouse unchanged, with \<^verbatim>\<open>binary\<close>. The lemma
  \<open>rewrite_conn_cases\<close> shows this for the strings with a colon and for the empty string,
  which the source guards (\<^verbatim>\<open>if conn else ("", "")\<close>). For the non-empty string
  \<^verbatim>\<open>test.db\<close>, which has no colon, the tuple assignment of the same line raises
  \<^verbatim>\<open>ValueError\<close>, while the same string with the protocol \<^verbatim>\<open>binary\<close> given is returned
  unchanged.
\<close>

theorem rewrite_conn_no_colon_raises:
  "rewrite_conn (ConnStr ''test.db'') None =
     Inl (ValueError ''not enough values to unpack (expected 2, got 1)'')
   \<and> \<not> sublist ''redshift'' ''test.db'' \<and> \<not> sublist ''clickhouse'' ''test.db''
   \<and> rewrite_conn (ConnStr ''test.db'') (Some ''binary'') = Inr (''test.db'', ''binary'')"
  by code_simp

section \<open>Empty result payloads\<close>

lemma reconstruct_pandas_no_data:
  "data df_infos = [] \<Longrightarrow>
   reconstruct_pandas df_infos = Inl (IndexError ''list index out of range'')"
  by (simp add: reconstruct_pandas_def)

lemma reconstruct_pandas_zero_rows:
  "reconstruct_pandas
     \<lparr> data = [Arr (NDArray [2, 0] 4096 [])],
       headers = [''id'', ''amount''],
       block_infos = [\<lparr> dt = 0, cids = [0, 1] \<rparr>] \<rparr> =
   Inr \<lparr> df_blocks = [Make_block (NumpyArray (Arr (NDArray [2, 0] 4096 []))) (Columns [0, 1])],
         df_columns = [''id'', ''amount''],
         df_index_stop = 0 \<rparr>"
  by (simp add: reconstruct_pandas_def reconstruct_block_def shape_last_def)

lemma reconstruct_arrow_no_names: "reconstruct_arrow ([], ptrs) = Table_from_arrays []"
  by (simp add: reconstruct_arrow_def)

text \<open>
  Claim C7 says that zero-row and zero-column results give a table and never an error, and
  that \<^verbatim>\<open>reconstruct_arrow\<close> and \<^verbatim>\<open>reconstruct_pandas\<close> succeed on empty payloads. On the
  payload of a result without columns (no blocks, no headers) \<^verbatim>\<open>reconstruct_pandas\<close>
  raises \<^verbatim>\<open>IndexError\<close> at \<^verbatim>\<open>data[0]\<close>, while \<^verbatim>\<open>reconstruct_arrow\<close> has a branch for
  \<^verbatim>\<open>len(names) == 0\<close> and returns an empty table.
\<close>

theorem reconstruct_pandas_empty_payload:
  "reconstruct_pandas \<lparr> data = [], headers = [], block_infos = [] \<rparr> =
     Inl (IndexError ''list index out of range'')
   \<and> reconstruct_arrow ([], []) = Table_from_arrays []"
  by (simp add: reconstruct_pandas_def reconstruct_arrow_def)

section \<open>One-element lists and ending semicolons\<close>

lemma read_sql_singleton_list_same:
  assumes "\<not> suffix '';;'' q"
  shows "read_sql modules conn (QList [q]) return_type protocol partition_on partition_range
           partition_num index_col =
         read_sql modules conn (QStr q) return_type protocol partition_on partition_range
           partition_num index_col"
proof -
  have t: "remove_ending_semicolon (remove_ending_semicolon q) = remove_ending_semicolon q"
    using assms by (rule remove_ending_semicolon_twice)
  show ?thesis
  proof (cases conn)
    case (Single c)
    show ?thesis
      unfolding Single read_sql_single_unfold
      by (cases partition_on) (simp_all add: read_sql_queries_def t)
  next
    case (Federated d)
    show ?thesis
      unfolding Federated read_sql_def
      by (cases partition_on) (simp_all add: t)
  qed
qed

text \<open>
  Claim C9 says that \<^verbatim>\<open>read_sql\<close> with the one-element list \<^verbatim>\<open>[q]\<close> behaves as with the
  string \<^verbatim>\<open>q\<close>. For \<^verbatim>\<open>q = "SELECT 1;;"\<close> the engine receives \<^verbatim>\<open>"SELECT 1"\<close> from the list
  and \<^verbatim>\<open>"SELECT 1;"\<close> from the string: the element of a one-element list passes through
  \<^verbatim>\<open>remove_ending_semicolon\<close> twice. (The lemma \<open>read_sql_singleton_list_same\<close> shows
  that the two calls agree for every other \<open>q\<close>.)
\<close>

theorem read_sql_singleton_list_differs:
  "read_sql [''pandas''] (Single (ConnStr ''postgresql://h/db'')) (QList [''SELECT 1;;''])
     ''pandas'' None None None None None =
     Inr (Engine_read_sql ''postgresql://h/db'' ''pandas'' (Some [''SELECT 1'']) ''binary'' None)
   \<and> read_sql [''pandas''] (Single (ConnStr ''postgresql://h/db'')) (QStr ''SELECT 1;;'')
       ''pandas'' None None None None None =
     Inr (Engine_read_sql ''postgresql://h/db'' ''pandas'' (Some [''SELECT 1;'']) ''binary'' None)"
  by code_simp

text \<open>
  Claim C10 says that \<^verbatim>\<open>remove_ending_semicolon\<close> removes one ending semicolon (lemmas
  \<open>remove_ending_semicolon_snoc\<close> and \<open>remove_ending_semicolon_other\<close>) and that
  \<^verbatim>\<open>read_sql\<close> applies it exactly once to each incoming query. A federated call with the
  one-element list \<^verbatim>\<open>["SELECT 1;;"]\<close> hands \<^verbatim>\<open>"SELECT 1"\<close> to the engine, where one
  application leaves \<^verbatim>\<open>"SELECT 1;"\<close>, as the same call with the string does.
\<close>

theorem read_sql_strips_singleton_twice:
  "remove_ending_semicolon ''SELECT 1;;'' = ''SELECT 1;''
   \<and> read_sql [] (Federated [(''db1'', ConnStr ''postgresql://h/db'')]) (QList [''SELECT 1;;''])
       ''arrow'' None None None None None =
     Inr (Engine_read_sql2 ''SELECT 1'' [(''db1'', ''postgresql://h/db'')])
   \<and> read_sql [] (Federated [(''db1'', ConnStr ''postgresql://h/db'')]) (QStr ''SELECT 1;;'')
       ''arrow'' None None None None None =
     Inr (Engine_read_sql2 ''SELECT 1;'' [(''db1'', ''postgresql://h/db'')])"
  by code_simp

end
